theory Spec2Isabelle
  imports Main
begin

section \<open>Values, errors and responses\<close>

text \<open>
  The handlers of the user controller either send a response or throw. A thrown
  \<open>new ApiError(code, message)\<close> is \<open>ApiError code message\<close>; a JavaScript runtime
  \<open>TypeError\<close> (a property read on \<open>undefined\<close>) is \<open>TypeError\<close>; a failing
  \<open>fs.unlinkSync\<close> is \<open>FsError\<close>. An optional JavaScript string is a
  \<open>string option\<close>, \<open>None\<close> being \<open>undefined\<close>. Strings are lists of 8-bit
  characters (the Latin-1 range of JavaScript's code units).
\<close>

datatype error = ApiError nat string | TypeError | FsError

text \<open>\<open>!x\<close> on an optional string: \<open>undefined\<close> and the empty string are falsy.\<close>

definition falsy :: "string option \<Rightarrow> bool" where
  "falsy x = (case x of None \<Rightarrow> True | Some s \<Rightarrow> s = [])"

section \<open>The media uploader\<close>

text \<open>
  The local disk holds the temporary files multer wrote. \<open>unlink_calls\<close> logs every
  call of \<open>fs.unlinkSync\<close>, in order, so that the number of removals can be stated.
\<close>

record disk =
  present :: "string set"
  unlink_calls :: "string list"

text \<open>\<open>fs.unlinkSync(p)\<close>: removes the file, or throws when there is none.\<close>

definition unlinkSync :: "string \<Rightarrow> disk \<Rightarrow> (error + unit) \<times> disk" where
  "unlinkSync p d =
     (if p \<in> present d
      then (Inr (), d\<lparr>present := present d - {p}, unlink_calls := unlink_calls d @ [p]\<rparr>)
      else (Inl FsError, d\<lparr>unlink_calls := unlink_calls d @ [p]\<rparr>))"

record cloudinary_response =
  url :: string

text \<open>
  \<open>uploadOnCloudinary(localFilePath)\<close>. The remote call
  \<open>cloudinary.uploader.upload\<close> is the parameter \<open>upload\<close>: \<open>Some response\<close> when it
  resolves, \<open>None\<close> when it throws. The result is \<open>Inr None\<close> for \<open>null\<close>,
  \<open>Inr (Some response)\<close> for the descriptor, and \<open>Inl e\<close> when the \<open>unlinkSync\<close>
  of the \<open>catch\<close> block throws itself. An \<open>unlinkSync\<close> that throws inside
  \<open>try\<close> enters the \<open>catch\<close> block, which calls it again.
\<close>

definition uploadOnCloudinary ::
  "(string \<Rightarrow> cloudinary_response option) \<Rightarrow> string option \<Rightarrow> disk
    \<Rightarrow> (error + cloudinary_response option) \<times> disk" where
  "uploadOnCloudinary upload localFilePath d =
     (case localFilePath of
        None \<Rightarrow> (Inr None, d)
      | Some p \<Rightarrow>
          if p = [] then (Inr None, d)
          else
            (case upload p of
               Some response \<Rightarrow>
                 (case unlinkSync p d of
                    (Inr _, d') \<Rightarrow> (Inr (Some response), d')
                  | (Inl _, d') \<Rightarrow>
                      (case unlinkSync p d' of
                         (Inr _, d'') \<Rightarrow> (Inr None, d'')
                       | (Inl e, d'') \<Rightarrow> (Inl e, d'')))
             | None \<Rightarrow>
                 (case unlinkSync p d of
                    (Inr _, d') \<Rightarrow> (Inr None, d')
                  | (Inl e, d') \<Rightarrow> (Inl e, d'))))"

section \<open>Strings\<close>

text \<open>
  \<open>String.prototype.trim\<close> strips white space and line terminators from both
  ends; in the Latin-1 range these are TAB, LF, VT, FF, CR, SPACE and NBSP.
\<close>

definition isWhiteSpace :: "char \<Rightarrow> bool" where
  "isWhiteSpace c =
     (c = CHR 0x09 \<or> c = CHR 0x0A \<or> c = CHR 0x0B \<or> c = CHR 0x0C \<or> c = CHR 0x0D \<or>
      c = CHR 0x20 \<or> c = CHR 0xA0)"

definition trim :: "string \<Rightarrow> string" where
  "trim s = rev (dropWhile isWhiteSpace (rev (dropWhile isWhiteSpace s)))"

text \<open>
  \<open>String.prototype.toLowerCase\<close> in the Latin-1 range: A to Z and the accented
  capitals 0xC0 to 0xDE (but the multiplication sign 0xD7) move up by 32.
\<close>

definition lowerChar :: "char \<Rightarrow> char" where
  "lowerChar c =
     (let n = (of_char c :: nat)
      in if (65 \<le> n \<and> n \<le> 90) \<or> (192 \<le> n \<and> n \<le> 222 \<and> n \<noteq> 215)
         then char_of (n + 32) else c)"

definition toLowerCase :: "string \<Rightarrow> string" where
  "toLowerCase s = map lowerChar s"

section \<open>The document store\<close>

type_synonym objectId = nat

text \<open>
  A user document. The text fields of a registration are stored as they arrive, so
  a field that was absent from the request is absent from the document; hashing of
  the password belongs to the user model, which these sources do not hold.
\<close>

record user =
  uid :: objectId
  fullName :: "string option"
  email :: "string option"
  username :: string
  password :: "string option"
  avatar :: string
  coverImage :: string
  refreshToken :: "string option"
  watchHistory :: "objectId list"

record subscription =
  subscriber :: objectId
  channel :: objectId

record video =
  vid :: objectId
  owner :: objectId

record state =
  users :: "user list"
  subscriptions :: "subscription list"
  videos :: "video list"
  disk :: disk

text \<open>\<open>User.findById(id)\<close>: the first document with that \<open>_id\<close>, or null.\<close>

definition findById :: "objectId \<Rightarrow> user list \<Rightarrow> user option" where
  "findById i us = find (\<lambda>u. uid u = i) us"

text \<open>
  \<open>User.findOne({$or: [{email}, {username}]})\<close>: the first document whose email or
  username equals the value given.
\<close>

definition findOne_email_or_username ::
  "string option \<Rightarrow> string option \<Rightarrow> user list \<Rightarrow> user option" where
  "findOne_email_or_username e un us = find (\<lambda>u. email u = e \<or> Some (username u) = un) us"

text \<open>
  \<open>findByIdAndUpdate(id, {$set: ...})\<close> and \<open>user.save()\<close>: the first document with
  that \<open>_id\<close> is rewritten, the others are left alone.
\<close>

fun findByIdAndUpdate :: "objectId \<Rightarrow> (user \<Rightarrow> user) \<Rightarrow> user list \<Rightarrow> user list" where
  "findByIdAndUpdate i f [] = []"
| "findByIdAndUpdate i f (u # us) =
     (if uid u = i then f u # us else u # findByIdAndUpdate i f us)"

text \<open>\<open>User.create\<close> gives the new document an \<open>_id\<close> no stored document has.\<close>

definition fresh_id :: "user list \<Rightarrow> objectId" where
  "fresh_id us = Suc (fold max (map uid us) 0)"

text \<open>
  A document as it is serialised into a response: its fields in order, an absent
  field left out. \<open>.select("-password -refreshToken")\<close> drops the named fields.
\<close>

datatype field = Text string | Id objectId | Ids "objectId list"

type_synonym document = "(string \<times> field) list"

definition opt_field :: "string \<Rightarrow> string option \<Rightarrow> document" where
  "opt_field k v = (case v of None \<Rightarrow> [] | Some s \<Rightarrow> [(k, Text s)])"

definition toObject :: "user \<Rightarrow> document" where
  "toObject u =
     [(''_id'', Id (uid u))] @ opt_field ''fullName'' (fullName u) @
     opt_field ''email'' (email u) @ [(''username'', Text (username u))] @
     opt_field ''password'' (password u) @
     [(''avatar'', Text (avatar u)), (''coverImage'', Text (coverImage u))] @
     opt_field ''refreshToken'' (refreshToken u) @
     [(''watchHistory'', Ids (watchHistory u))]"

definition select_exclude :: "string list \<Rightarrow> document \<Rightarrow> document" where
  "select_exclude ks doc = filter (\<lambda>kv. fst kv \<notin> set ks) doc"

section \<open>Requests and responses\<close>

record multer_file =
  path :: string

text \<open>
  \<open>req.files\<close> as \<open>upload.fields\<close> leaves it: an object with an array per field
  that carried a file, and no property for a field that carried none.
\<close>

record upload_fields =
  avatar_field :: "multer_file list option"
  coverImage_field :: "multer_file list option"

record request =
  body_fullName :: "string option"
  body_email :: "string option"
  body_username :: "string option"
  body_password :: "string option"
  body_refreshToken :: "string option"
  header_authorization :: "string option"
  cookie_accessToken :: "string option"
  cookie_refreshToken :: "string option"
  params_username :: "string option"
  req_files :: "upload_fields option"
  req_file :: "multer_file option"
  req_user :: "user option"

datatype cookie = Cookie string "string option" | ClearCookie string

record 'd apiResponse =
  statusCode :: nat
  data :: 'd
  message :: string
  success :: bool

text \<open>
  Modelled from the spec: the class \<open>ApiResponse\<close> of \<open>utils/ApiResponse.js\<close>, which
  is not among the sources. The envelope is \<open>{statusCode, data, message, success}\<close>
  with \<open>success = statusCode < 400\<close>.
\<close>

definition ApiResponse :: "nat \<Rightarrow> 'd \<Rightarrow> string \<Rightarrow> 'd apiResponse" where
  "ApiResponse sc d m = \<lparr>statusCode = sc, data = d, message = m, success = (sc < 400)\<rparr>"

record 'd response =
  status :: nat
  cookies :: "cookie list"
  json :: "'d apiResponse"

text \<open>
  What lies outside the repository: the remote upload, the token methods of the
  user model with \<open>jwt.verify\<close>, and the object mapper between the handlers and
  the store. A token is minted from the user document at a time;
  \<open>jwt_verify_refresh\<close> is \<open>None\<close> when verification throws and otherwise the
  \<open>_id\<close> of the decoded payload, if it has one. \<open>omitUndefined\<close> tells whether
  the mapper deletes a key whose value is \<open>undefined\<close> from an update before it
  sends it: Mongoose does so from version 6 on; version 5 does it under the option of
  that name and otherwise writes null.
\<close>

record env =
  omitUndefined :: bool
  cloudinary_upload :: "string \<Rightarrow> cloudinary_response option"
  generateAccessToken :: "user \<Rightarrow> nat \<Rightarrow> string"
  generateRefreshToken :: "user \<Rightarrow> nat \<Rightarrow> string"
  jwt_verify_access :: "string \<Rightarrow> objectId option option"
  jwt_verify_refresh :: "string \<Rightarrow> objectId option option"

section \<open>registerUser\<close>

text \<open>\<open>req.files?.avatar[0]?.path\<close>: reading \<open>[0]\<close> of a missing \<open>avatar\<close> throws.\<close>

definition avatarLocalPath_of :: "upload_fields option \<Rightarrow> error + string option" where
  "avatarLocalPath_of fs =
     (case fs of
        None \<Rightarrow> Inr None
      | Some f \<Rightarrow>
          (case avatar_field f of
             None \<Rightarrow> Inl TypeError
           | Some [] \<Rightarrow> Inr None
           | Some (a # _) \<Rightarrow> Inr (Some (path a))))"

text \<open>
  The guarded read of the cover image:
  \<open>req.files && Array.isArray(req.files.coverImage) && req.files.coverImage.length > 0\<close>.
\<close>

definition coverImageLocalPath_of :: "upload_fields option \<Rightarrow> string option" where
  "coverImageLocalPath_of fs =
     (case fs of
        None \<Rightarrow> None
      | Some f \<Rightarrow>
          (case coverImage_field f of
             None \<Rightarrow> None
           | Some [] \<Rightarrow> None
           | Some (c # _) \<Rightarrow> Some (path c)))"

text \<open>\<open>[fullName, email, username, password].some((field) => field?.trim() === "")\<close>\<close>

definition some_field_empty :: "string option list \<Rightarrow> bool" where
  "some_field_empty fs = list_ex (\<lambda>field. map_option trim field = Some []) fs"

definition registerUser ::
  "env \<Rightarrow> state \<Rightarrow> request \<Rightarrow> (error + document response) \<times> state" where
  "registerUser env st req =
     (if some_field_empty [body_fullName req, body_email req, body_username req, body_password req]
      then (Inl (ApiError 400 ''Please fill in all fields''), st)
      else
        (case findOne_email_or_username (body_email req) (body_username req) (users st) of
           Some existedUser \<Rightarrow> (Inl (ApiError 409 ''User already exists''), st)
         | None \<Rightarrow>
             (case avatarLocalPath_of (req_files req) of
                Inl e \<Rightarrow> (Inl e, st)
              | Inr avatarLocalPath \<Rightarrow>
                  if falsy avatarLocalPath
                  then (Inl (ApiError 400 ''Please upload an avatar''), st)
                  else
                    (case uploadOnCloudinary (cloudinary_upload env) avatarLocalPath (disk st) of
                       (Inl e, d1) \<Rightarrow> (Inl e, st\<lparr>disk := d1\<rparr>)
                     | (Inr avatar', d1) \<Rightarrow>
                         (case uploadOnCloudinary (cloudinary_upload env)
                                 (coverImageLocalPath_of (req_files req)) d1 of
                            (Inl e, d2) \<Rightarrow> (Inl e, st\<lparr>disk := d2\<rparr>)
                          | (Inr coverImage', d2) \<Rightarrow>
                              (case avatar' of
                                 None \<Rightarrow> (Inl (ApiError 500 ''Error uploading avatar''), st\<lparr>disk := d2\<rparr>)
                               | Some av \<Rightarrow>
                                   (case body_username req of
                                      None \<Rightarrow> (Inl TypeError, st\<lparr>disk := d2\<rparr>)
                                    | Some un \<Rightarrow>
                                        (let user =
                                               \<lparr>uid = fresh_id (users st),
                                                fullName = body_fullName req,
                                                email = body_email req,
                                                username = toLowerCase un,
                                                password = body_password req,
                                                avatar = url av,
                                                coverImage = (case coverImage' of None \<Rightarrow> [] | Some c \<Rightarrow> url c),
                                                refreshToken = None,
                                                watchHistory = []\<rparr>;
                                             st' = st\<lparr>users := users st @ [user], disk := d2\<rparr>
                                         in case findById (uid user) (users st') of
                                              None \<Rightarrow> (Inl (ApiError 500 ''Error creating user''), st')
                                            | Some userCreated \<Rightarrow>
                                                (Inr \<lparr>status = 201, cookies = [],
                                                      json = ApiResponse 200
                                                        (select_exclude [''password'', ''refreshToken'']
                                                           (toObject userCreated))
                                                        ''User created successfully''\<rparr>,
                                                 st')))))))))"

section \<open>Tokens: issue, refresh, logout\<close>

text \<open>
  \<open>generateAccessAndRefreshTokens(userId)\<close> returns the object
  \<open>{accessToken, refreshToken}\<close>, here the list of its properties. A user that
  cannot be loaded makes the method call throw inside \<open>try\<close>, which the
  \<open>catch\<close> turns into the 500 error. \<open>user.save\<close> writes the loaded document back
  with its new refresh token.
\<close>

definition generateAccessAndRefreshTokens ::
  "env \<Rightarrow> nat \<Rightarrow> state \<Rightarrow> objectId \<Rightarrow> (error + (string \<times> string) list) \<times> state" where
  "generateAccessAndRefreshTokens env now st userId =
     (case findById userId (users st) of
        None \<Rightarrow>
          (Inl (ApiError 500 ''Something went wrong while generating refresh and access tokens''), st)
      | Some user \<Rightarrow>
          (let accessToken = generateAccessToken env user now;
               refreshToken' = generateRefreshToken env user now;
               st' = st\<lparr>users := findByIdAndUpdate userId
                                    (\<lambda>_. user\<lparr>refreshToken := Some refreshToken'\<rparr>) (users st)\<rparr>
           in (Inr [(''accessToken'', accessToken), (''refreshToken'', refreshToken')], st')))"

text \<open>
  \<open>refreshAccessToken\<close>. The destructuring
  \<open>const { accessToken, newRefreshToken } = await generateAccessAndRefreshTokens(...)\<close>
  reads the properties \<open>accessToken\<close> and \<open>newRefreshToken\<close> of the returned
  object; a property the object does not have reads as \<open>undefined\<close>. Every error
  thrown inside \<open>try\<close> is rethrown as the 401 error.
\<close>

definition refreshAccessToken ::
  "env \<Rightarrow> nat \<Rightarrow> state \<Rightarrow> request
    \<Rightarrow> (error + (string \<times> string option) list response) \<times> state" where
  "refreshAccessToken env now st req =
     (let incomingRefreshToken =
            (if falsy (cookie_refreshToken req) then body_refreshToken req
             else cookie_refreshToken req)
      in case incomingRefreshToken of
           None \<Rightarrow> (Inl (ApiError 401 ''Unauthorized request''), st)
         | Some tok \<Rightarrow>
             if tok = [] then (Inl (ApiError 401 ''Unauthorized request''), st)
             else
               (case jwt_verify_refresh env tok of
                  None \<Rightarrow> (Inl (ApiError 401 ''Invalid refresh token''), st)
                | Some decoded_id \<Rightarrow>
                    (case (case decoded_id of None \<Rightarrow> None | Some i \<Rightarrow> findById i (users st)) of
                       None \<Rightarrow> (Inl (ApiError 401 ''Invalid refresh token''), st)
                     | Some user \<Rightarrow>
                         if refreshToken user \<noteq> Some tok
                         then (Inl (ApiError 401 ''Invalid refresh token''), st)
                         else
                           (case generateAccessAndRefreshTokens env now st (uid user) of
                              (Inl e, st') \<Rightarrow> (Inl (ApiError 401 ''Invalid refresh token''), st')
                            | (Inr tokens, st') \<Rightarrow>
                                (let accessToken = map_of tokens ''accessToken'';
                                     newRefreshToken = map_of tokens ''newRefreshToken''
                                 in (Inr \<lparr>status = 200,
                                          cookies = [Cookie ''accessToken'' accessToken,
                                                     Cookie ''refreshToken'' newRefreshToken],
                                          json = ApiResponse 200
                                            [(''accessToken'', accessToken),
                                             (''refreshToken'', newRefreshToken)]
                                            ''Access token refreshed successfully''\<rparr>,
                                     st'))))))"

text \<open>
  \<open>{$set: {refreshToken: v}}\<close> as the mapper casts it and the store applies it:
  an \<open>undefined\<close> value is dropped with its key, leaving nothing to set, or
  written as the cleared field.
\<close>

definition set_refreshToken :: "env \<Rightarrow> string option \<Rightarrow> user \<Rightarrow> user" where
  "set_refreshToken env v d =
     (if v = None \<and> omitUndefined env then d else d\<lparr>refreshToken := v\<rparr>)"

text \<open>
  \<open>logoutUser\<close>: \<open>findByIdAndUpdate(req.user._id, {$set: {refreshToken: undefined}})\<close>,
  then both cookies are cleared.
\<close>

definition logoutUser :: "env \<Rightarrow> state \<Rightarrow> request \<Rightarrow> (error + document response) \<times> state" where
  "logoutUser env st req =
     (case req_user req of
        None \<Rightarrow> (Inl TypeError, st)
      | Some u \<Rightarrow>
          (Inr \<lparr>status = 200,
                cookies = [ClearCookie ''accessToken'', ClearCookie ''refreshToken''],
                json = ApiResponse 200 [] ''User logged out successfully''\<rparr>,
           st\<lparr>users := findByIdAndUpdate (uid u) (set_refreshToken env None) (users st)\<rparr>))"

section \<open>updateUserAvatar and updateUserCoverImage\<close>

definition updateUserAvatar ::
  "env \<Rightarrow> state \<Rightarrow> request \<Rightarrow> (error + document option response) \<times> state" where
  "updateUserAvatar env st req =
     (let avatarLocalPath = map_option path (req_file req)
      in if falsy avatarLocalPath
         then (Inl (ApiError 400 ''Please upload an avatar''), st)
         else
           (case uploadOnCloudinary (cloudinary_upload env) avatarLocalPath (disk st) of
              (Inl e, d') \<Rightarrow> (Inl e, st\<lparr>disk := d'\<rparr>)
            | (Inr None, d') \<Rightarrow> (Inl (ApiError 400 ''Error uploading avatar''), st\<lparr>disk := d'\<rparr>)
            | (Inr (Some avatar'), d') \<Rightarrow>
                (case req_user req of
                   None \<Rightarrow> (Inl TypeError, st\<lparr>disk := d'\<rparr>)
                 | Some u \<Rightarrow>
                     (let us' = findByIdAndUpdate (uid u) (\<lambda>d. d\<lparr>avatar := url avatar'\<rparr>) (users st)
                      in (Inr \<lparr>status = 200, cookies = [],
                               json = ApiResponse 200
                                 (map_option (\<lambda>d. select_exclude [''password'', ''refreshToken''] (toObject d))
                                    (findById (uid u) us'))
                                 ''Avatar updated successfully''\<rparr>,
                          st\<lparr>users := us', disk := d'\<rparr>)))))"

definition updateUserCoverImage ::
  "env \<Rightarrow> state \<Rightarrow> request \<Rightarrow> (error + document option response) \<times> state" where
  "updateUserCoverImage env st req =
     (let coverImageLocalPath = map_option path (req_file req)
      in if falsy coverImageLocalPath
         then (Inl (ApiError 400 ''Please upload the cover image''), st)
         else
           (case uploadOnCloudinary (cloudinary_upload env) coverImageLocalPath (disk st) of
              (Inl e, d') \<Rightarrow> (Inl e, st\<lparr>disk := d'\<rparr>)
            | (Inr None, d') \<Rightarrow> (Inl (ApiError 400 ''Error uploading cover image''), st\<lparr>disk := d'\<rparr>)
            | (Inr (Some coverImage'), d') \<Rightarrow>
                (case req_user req of
                   None \<Rightarrow> (Inl TypeError, st\<lparr>disk := d'\<rparr>)
                 | Some u \<Rightarrow>
                     (let us' = findByIdAndUpdate (uid u) (\<lambda>d. d\<lparr>coverImage := url coverImage'\<rparr>) (users st)
                      in (Inr \<lparr>status = 200, cookies = [],
                               json = ApiResponse 200
                                 (map_option (\<lambda>d. select_exclude [''password'', ''refreshToken''] (toObject d))
                                    (findById (uid u) us'))
                                 ''Cover image updated successfully''\<rparr>,
                          st\<lparr>users := us', disk := d'\<rparr>)))))"

section \<open>The aggregations\<close>

text \<open>
  \<open>User.aggregate([...])\<close> builds a query object; only awaiting it runs the pipeline
  and yields the array of documents. The object itself has no indexed properties,
  so \<open>q[i]\<close> on it is \<open>undefined\<close>.
\<close>

datatype 'a aggregate = Aggregate "'a list"

fun await_aggregate :: "'a aggregate \<Rightarrow> 'a list" where
  "await_aggregate (Aggregate docs) = docs"

definition aggregate_index :: "'a aggregate \<Rightarrow> nat \<Rightarrow> 'a option" where
  "aggregate_index q i = None"

record channel_profile =
  channel_id :: objectId
  channel_fullName :: "string option"
  channel_username :: string
  subscribedToCount :: nat
  subscriberCount :: nat
  isSubscribed :: bool
  channel_avatar :: string
  channel_coverImage :: string
  channel_email :: "string option"

text \<open>
  The pipeline of \<open>getUserChannelProfile\<close>: \<open>$match\<close> on the lowercased username,
  the two \<open>$lookup\<close>s into the subscriptions, the counts and the flag, the
  projection. \<open>viewer\<close> is \<open>req.user?._id\<close>; no edge has an absent subscriber, so
  an absent viewer is in no subscriber list.
\<close>

definition channel_pipeline :: "state \<Rightarrow> string \<Rightarrow> objectId option \<Rightarrow> channel_profile list" where
  "channel_pipeline st uname viewer =
     map (\<lambda>u.
            let subscribers = filter (\<lambda>s. channel s = uid u) (subscriptions st);
                subscribedTo = filter (\<lambda>s. subscriber s = uid u) (subscriptions st)
            in \<lparr>channel_id = uid u,
                channel_fullName = fullName u,
                channel_username = username u,
                subscribedToCount = length subscribedTo,
                subscriberCount = length subscribers,
                isSubscribed =
                  (case viewer of None \<Rightarrow> False | Some v \<Rightarrow> v \<in> set (map subscriber subscribers)),
                channel_avatar = avatar u,
                channel_coverImage = coverImage u,
                channel_email = email u\<rparr>)
         (filter (\<lambda>u. username u = toLowerCase uname) (users st))"

definition getUserChannelProfile :: "state \<Rightarrow> request \<Rightarrow> error + channel_profile response" where
  "getUserChannelProfile st req =
     (if falsy (params_username req)
      then Inl (ApiError 400 ''Please provide a username'')
      else
        (case await_aggregate
                (Aggregate (channel_pipeline st (the (params_username req))
                              (map_option uid (req_user req)))) of
           [] \<Rightarrow> Inl (ApiError 404 ''Channel not found'')
         | c # _ \<Rightarrow>
             Inr \<lparr>status = 200, cookies = [],
                  json = ApiResponse 200 c ''Channel profile fetched successfully''\<rparr>))"

record owner_view =
  owner_id :: objectId
  owner_fullName :: "string option"
  owner_username :: string
  owner_avatar :: string

record video_view =
  video_id :: objectId
  video_owner :: "owner_view option"

text \<open>
  The pipeline of \<open>getWatchHistory\<close>: the user with the given \<open>_id\<close>, its
  \<open>watchHistory\<close> replaced by the videos the \<open>$lookup\<close> matches, each with the
  first matching owner (\<open>$first\<close>) projected to three fields.
\<close>

definition watchHistory_pipeline :: "state \<Rightarrow> objectId \<Rightarrow> (user \<times> video_view list) list" where
  "watchHistory_pipeline st i =
     map (\<lambda>u. (u,
            map (\<lambda>v. \<lparr>video_id = vid v,
                       video_owner =
                         map_option
                           (\<lambda>w. \<lparr>owner_id = uid w, owner_fullName = fullName w,
                                  owner_username = username w, owner_avatar = avatar w\<rparr>)
                           (find (\<lambda>w. uid w = owner v) (users st))\<rparr>)
                (filter (\<lambda>v. vid v \<in> set (watchHistory u)) (videos st))))
         (filter (\<lambda>u. uid u = i) (users st))"

text \<open>
  \<open>getWatchHistory\<close>: \<open>const user = User.aggregate([...])\<close> is not awaited, so
  \<open>user\<close> is the query object, and \<open>user[0].watchHistory\<close> reads a property of
  \<open>user[0]\<close>.
\<close>

definition getWatchHistory :: "state \<Rightarrow> request \<Rightarrow> error + video_view list response" where
  "getWatchHistory st req =
     (case req_user req of
        None \<Rightarrow> Inl TypeError
      | Some u \<Rightarrow>
          (let user = Aggregate (watchHistory_pipeline st (uid u))
           in case aggregate_index user 0 of
                None \<Rightarrow> Inl TypeError
              | Some doc \<Rightarrow>
                  Inr \<lparr>status = 200, cookies = [],
                       json = ApiResponse 200 (snd doc) ''Watch history fetched successfully''\<rparr>))"

section \<open>The router\<close>

datatype middleware = VerifyJWT | UploadFields | UploadSingle string

datatype controller =
  RegisterUser | LoginUser | LogoutUser | RefreshAccessToken | UpdateUserAvatar
  | ChangeCurrentPassword | GetCurrentUser | ChangeAccountDetails | UpdateUserCoverImage
  | GetUserChannelProfile | GetWatchHistory

datatype http_method = GET | POST | PATCH

text \<open>The routes, each with its method, its middlewares in order and its controller.\<close>

definition router :: "(string \<times> http_method \<times> middleware list \<times> controller) list" where
  "router =
     [(''/register'', POST, [UploadFields], RegisterUser),
      (''/login'', POST, [], LoginUser),
      (''/logout'', POST, [VerifyJWT], LogoutUser),
      (''/refresh-token'', POST, [], RefreshAccessToken),
      (''/update-avatar'', PATCH, [VerifyJWT, UploadSingle ''avatar''], UpdateUserAvatar),
      (''/change-password'', POST, [VerifyJWT], ChangeCurrentPassword),
      (''current-user'', GET, [VerifyJWT], GetCurrentUser),
      (''/update-account'', PATCH, [VerifyJWT], ChangeAccountDetails),
      (''/update-cover'', PATCH, [VerifyJWT, UploadSingle ''coverImage''], UpdateUserCoverImage),
      (''/c/:username'', GET, [], GetUserChannelProfile),
      (''/history'', GET, [VerifyJWT], GetWatchHistory)]"

definition route_of :: "string \<Rightarrow> http_method \<Rightarrow> (middleware list \<times> controller) option" where
  "route_of p m = map_of (map (\<lambda>(p', m', ms, c). ((p', m'), (ms, c))) router) (p, m)"

text \<open>
  Modelled from the spec: the middleware \<open>verifyJWT\<close> of
  \<open>middlewares/auth.middleware.js\<close>, which is not among the sources. It takes the
  access token from the cookie or the header, fails with 401 when there is none,
  when verification fails or when the user is not found, and otherwise attaches the
  user, without password and refresh token, to the request.
\<close>

definition verifyJWT :: "env \<Rightarrow> state \<Rightarrow> request \<Rightarrow> error + request" where
  "verifyJWT env st req =
     (let token = (if falsy (cookie_accessToken req) then header_authorization req
                   else cookie_accessToken req)
      in if falsy token then Inl (ApiError 401 ''Unauthorized'')
         else
           (case jwt_verify_access env (the token) of
              None \<Rightarrow> Inl (ApiError 401 ''Unauthorized'')
            | Some decoded_id \<Rightarrow>
                (case (case decoded_id of None \<Rightarrow> None | Some i \<Rightarrow> findById i (users st)) of
                   None \<Rightarrow> Inl (ApiError 401 ''Unauthorized'')
                 | Some u \<Rightarrow> Inr (req\<lparr>req_user := Some (u\<lparr>password := None, refreshToken := None\<rparr>)\<rparr>))))"

text \<open>
  The multer middlewares have run when the request record is built: \<open>req_files\<close>
  and \<open>req_file\<close> hold what they leave.
\<close>

fun run_middleware :: "env \<Rightarrow> state \<Rightarrow> middleware \<Rightarrow> request \<Rightarrow> error + request" where
  "run_middleware env st VerifyJWT req = verifyJWT env st req"
| "run_middleware env st UploadFields req = Inr req"
| "run_middleware env st (UploadSingle name) req = Inr req"

fun run_chain :: "env \<Rightarrow> state \<Rightarrow> middleware list \<Rightarrow> request \<Rightarrow> error + request" where
  "run_chain env st [] req = Inr req"
| "run_chain env st (m # ms) req =
     (case run_middleware env st m req of Inl e \<Rightarrow> Inl e | Inr req' \<Rightarrow> run_chain env st ms req')"

text \<open>
  \<open>GET /c/:username\<close> as served: an arriving request has no \<open>user\<close> property, the
  middlewares of the route run in order, then the controller.
\<close>

definition serve_channel_profile ::
  "env \<Rightarrow> state \<Rightarrow> request \<Rightarrow> error + channel_profile response" where
  "serve_channel_profile env st req =
     (case route_of ''/c/:username'' GET of
        None \<Rightarrow> Inl (ApiError 404 ''Not found'')
      | Some (ms, c) \<Rightarrow>
          (case run_chain env st ms (req\<lparr>req_user := None\<rparr>) of
             Inl e \<Rightarrow> Inl e
           | Inr req' \<Rightarrow>
               if c = GetUserChannelProfile then getUserChannelProfile st req'
               else Inl (ApiError 404 ''Not found'')))"

section \<open>Example inputs\<close>

text \<open>
  A small world for the concrete evaluations below: two users, Bob subscribed to
  Alice, one video, two temporary files of which only the first uploads. Tokens are
  runs of a letter as long as the time of issue; the refresh tokens of that shape
  verify for Alice, and Bob holds one access token. The mapper is a current one: it
  drops undefined values from updates.
\<close>

definition ex_env :: env where
  "ex_env =
     \<lparr>omitUndefined = True,
      cloudinary_upload =
        (\<lambda>p. if p = ''tmp/avatar.png'' then Some \<lparr>url = ''http://cdn/avatar.png''\<rparr> else None),
      generateAccessToken = (\<lambda>u t. replicate t CHR ''a''),
      generateRefreshToken = (\<lambda>u t. replicate t CHR ''r''),
      jwt_verify_access = (\<lambda>t. if t = ''bob-access'' then Some (Some 2) else None),
      jwt_verify_refresh =
        (\<lambda>t. if t \<noteq> [] \<and> list_all (\<lambda>c. c = CHR ''r'') t then Some (Some 1) else None)\<rparr>"

definition ex_alice :: user where
  "ex_alice =
     \<lparr>uid = 1, fullName = Some ''Alice'', email = Some ''alice@example.org'',
      username = ''alice'', password = Some ''hash-a'', avatar = ''http://cdn/alice.png'',
      coverImage = [], refreshToken = Some ''r'', watchHistory = [10]\<rparr>"

definition ex_bob :: user where
  "ex_bob =
     \<lparr>uid = 2, fullName = Some ''Bob'', email = Some ''bob@example.org'',
      username = ''bob'', password = Some ''hash-b'', avatar = ''http://cdn/bob.png'',
      coverImage = [], refreshToken = None, watchHistory = []\<rparr>"

definition ex_state :: state where
  "ex_state =
     \<lparr>users = [ex_alice, ex_bob],
      subscriptions = [\<lparr>subscriber = 2, channel = 1\<rparr>],
      videos = [\<lparr>vid = 10, owner = 2\<rparr>],
      disk = \<lparr>present = {''tmp/avatar.png'', ''tmp/broken.png''}, unlink_calls = []\<rparr>\<rparr>"

definition ex_request :: request where
  "ex_request =
     \<lparr>body_fullName = None, body_email = None, body_username = None, body_password = None,
      body_refreshToken = None, header_authorization = None, cookie_accessToken = None,
      cookie_refreshToken = None, params_username = None, req_files = None, req_file = None,
      req_user = None\<rparr>"

text \<open>A registration of Carol with all four text fields and no files yet.\<close>

definition ex_register :: request where
  "ex_register =
     ex_request\<lparr>body_fullName := Some ''Carol'', body_email := Some ''carol@example.org'',
                body_username := Some ''Carol'', body_password := Some ''secret''\<rparr>"

section \<open>Evaluation rules and basic facts\<close>

lemmas ex_defs = ex_env_def ex_alice_def ex_bob_def ex_state_def ex_request_def ex_register_def

lemmas handler_defs =
  registerUser_def some_field_empty_def trim_def isWhiteSpace_def findOne_email_or_username_def
  avatarLocalPath_of_def coverImageLocalPath_of_def falsy_def uploadOnCloudinary_def
  unlinkSync_def toLowerCase_def lowerChar_def char_of_eq_iff fresh_id_def findById_def
  ApiResponse_def select_exclude_def toObject_def opt_field_def
  generateAccessAndRefreshTokens_def refreshAccessToken_def logoutUser_def set_refreshToken_def
  updateUserAvatar_def updateUserCoverImage_def channel_pipeline_def getUserChannelProfile_def
  getWatchHistory_def aggregate_index_def route_of_def router_def verifyJWT_def
  serve_channel_profile_def

lemma findById_findByIdAndUpdate_same:
  "(\<And>d. uid (f d) = uid d) \<Longrightarrow>
     findById i (findByIdAndUpdate i f us) = map_option f (findById i us)"
  by (induction us) (auto simp: findById_def)

lemma findById_findByIdAndUpdate_other:
  "(\<And>d. uid (f d) = uid d) \<Longrightarrow> j \<noteq> i \<Longrightarrow>
     findById j (findByIdAndUpdate i f us) = findById j us"
  by (induction us) (auto simp: findById_def)

lemma findOne_email_or_username_Some:
  "u \<in> set us \<Longrightarrow> email u = e \<or> Some (username u) = un \<Longrightarrow>
     findOne_email_or_username e un us \<noteq> None"
  by (auto simp: findOne_email_or_username_def find_None_iff)

lemma dropWhile_all_iff:
  "(\<forall>x\<in>set (dropWhile P xs). P x) \<longleftrightarrow> (\<forall>x\<in>set xs. P x)"
proof
  assume all: "\<forall>x\<in>set (dropWhile P xs). P x"
  have "dropWhile P xs = []"
  proof (rule ccontr)
    assume ne: "dropWhile P xs \<noteq> []"
    then have "\<not> P (hd (dropWhile P xs))" by (rule hd_dropWhile)
    moreover from ne have "hd (dropWhile P xs) \<in> set (dropWhile P xs)" by simp
    ultimately show False using all by blast
  qed
  then show "\<forall>x\<in>set xs. P x" by (simp add: dropWhile_eq_Nil_conv)
next
  assume "\<forall>x\<in>set xs. P x"
  then show "\<forall>x\<in>set (dropWhile P xs). P x" by (auto dest: set_dropWhileD)
qed

text \<open>A string trims to the empty string exactly when all of it is white space.\<close>

lemma trim_empty_iff: "trim s = [] \<longleftrightarrow> list_all isWhiteSpace s"
  by (simp add: trim_def dropWhile_eq_Nil_conv list_all_iff dropWhile_all_iff)

lemma some_field_empty_iff:
  "some_field_empty fs \<longleftrightarrow> (\<exists>s. Some s \<in> set fs \<and> list_all isWhiteSpace s)"
proof -
  have "some_field_empty fs \<longleftrightarrow> (\<exists>f\<in>set fs. map_option trim f = Some [])"
    by (simp add: some_field_empty_def list_ex_iff)
  also have "\<dots> \<longleftrightarrow> (\<exists>s. Some s \<in> set fs \<and> trim s = [])"
    by (metis map_option_eq_Some option.simps(9))
  finally show ?thesis by (simp add: trim_empty_iff)
qed

text \<open>The only errors the two file steps of a handler can raise.\<close>

lemma avatarLocalPath_of_error: "avatarLocalPath_of fs = Inl e \<Longrightarrow> e = TypeError"
  by (auto simp: avatarLocalPath_of_def split: option.splits list.splits)

lemma uploadOnCloudinary_error: "uploadOnCloudinary up p d = (Inl e, d') \<Longrightarrow> e = FsError"
  by (auto simp: uploadOnCloudinary_def unlinkSync_def split: option.splits if_splits)

section \<open>The media uploader\<close>

text \<open>
  Claim C7. With no path (\<open>undefined\<close> or the empty string) the uploader returns
  null at once and touches nothing. With a path whose temporary file is on the disk,
  it returns the outcome of the remote upload (null when the upload failed, the
  remote descriptor when it succeeded), the file is gone afterwards, and
  \<open>unlinkSync\<close> has been called on it exactly once.
\<close>

theorem uploadOnCloudinary_cleanup:
  "uploadOnCloudinary upload None d = (Inr None, d) \<and>
   uploadOnCloudinary upload (Some []) d = (Inr None, d) \<and>
   (p \<noteq> [] \<and> p \<in> present d \<longrightarrow>
      uploadOnCloudinary upload (Some p) d =
        (Inr (upload p),
         d\<lparr>present := present d - {p}, unlink_calls := unlink_calls d @ [p]\<rparr>))"
  by (simp add: uploadOnCloudinary_def unlinkSync_def split: option.split)

theorem uploadOnCloudinary_cleanup_witness:
  "uploadOnCloudinary (cloudinary_upload ex_env) (Some ''tmp/avatar.png'') (disk ex_state) =
     (Inr (Some \<lparr>url = ''http://cdn/avatar.png''\<rparr>),
      \<lparr>present = {''tmp/broken.png''}, unlink_calls = [''tmp/avatar.png'']\<rparr>) \<and>
   uploadOnCloudinary (cloudinary_upload ex_env) (Some ''tmp/broken.png'') (disk ex_state) =
     (Inr None, \<lparr>present = {''tmp/avatar.png''}, unlink_calls = [''tmp/broken.png'']\<rparr>)"
  using uploadOnCloudinary_cleanup
      [of "cloudinary_upload ex_env" "disk ex_state" "''tmp/avatar.png''"]
    uploadOnCloudinary_cleanup
      [of "cloudinary_upload ex_env" "disk ex_state" "''tmp/broken.png''"]
  by (simp add: ex_defs insert_Diff_if)

text \<open>
  Where the file is not on the disk, the \<open>unlinkSync\<close> of the \<open>catch\<close> block
  throws and the uploader throws with it, whatever the remote upload did.
\<close>

lemma uploadOnCloudinary_missing_file:
  "p \<noteq> [] \<Longrightarrow> p \<notin> present d \<Longrightarrow> fst (uploadOnCloudinary upload (Some p) d) = Inl FsError"
  by (simp add: uploadOnCloudinary_def unlinkSync_def split: option.split)

section \<open>Registration\<close>

text \<open>
  Claim C10. The validation of the four text fields rejects a registration, with
  400 and the message of that branch, exactly when one of the fields is present and
  consists of white space only (the empty string included). An absent field never
  triggers the branch.
\<close>

theorem registerUser_field_validation:
  "(fst (registerUser env st req) = Inl (ApiError 400 ''Please fill in all fields'')) =
     (\<exists>s. Some s \<in> set [body_fullName req, body_email req, body_username req, body_password req] \<and>
          list_all isWhiteSpace s)"
proof (cases "some_field_empty [body_fullName req, body_email req, body_username req, body_password req]")
  case True
  then have "fst (registerUser env st req) = Inl (ApiError 400 ''Please fill in all fields'')"
    by (simp add: registerUser_def)
  with True show ?thesis by (simp add: some_field_empty_iff)
next
  case False
  then have "fst (registerUser env st req) \<noteq> Inl (ApiError 400 ''Please fill in all fields'')"
    by (auto simp: registerUser_def Let_def split: option.splits sum.splits prod.splits
        dest: avatarLocalPath_of_error uploadOnCloudinary_error)
  with False show ?thesis by (simp add: some_field_empty_iff)
qed

text \<open>
  A request with three of the four fields absent passes the validation and stops
  only at the avatar check; a full name of a space and a tab is rejected.
\<close>

theorem registerUser_field_validation_witness:
  "fst (registerUser ex_env ex_state (ex_request\<lparr>body_email := Some ''carol@example.org''\<rparr>)) =
     Inl (ApiError 400 ''Please upload an avatar'') \<and>
   \<not> (\<exists>s. Some s \<in> set [None, Some ''carol@example.org'', None, None] \<and> list_all isWhiteSpace s) \<and>
   fst (registerUser ex_env ex_state (ex_register\<lparr>body_fullName := Some [CHR 0x20, CHR 0x09]\<rparr>)) =
     Inl (ApiError 400 ''Please fill in all fields'')"
  using registerUser_field_validation
      [of ex_env ex_state "ex_request\<lparr>body_email := Some ''carol@example.org''\<rparr>"]
    registerUser_field_validation
      [of ex_env ex_state "ex_register\<lparr>body_fullName := Some [CHR 0x20, CHR 0x09]\<rparr>"]
  by (simp add: ex_defs handler_defs)

text \<open>
  Claim C8, as the code has it. If a stored user has the email or the username of
  the request, the registration throws and leaves the store as it was, so no record
  is added; the error is the 409 conflict whenever the validation of the text fields
  lets the request through (a request with an empty field is rejected with 400
  before the store is read).
\<close>

theorem registerUser_existing_rejected:
  assumes "u \<in> set (users st)"
    and "email u = body_email req \<or> Some (username u) = body_username req"
  shows "snd (registerUser env st req) = st \<and>
         (\<exists>e. fst (registerUser env st req) = Inl e) \<and>
         (\<not> some_field_empty [body_fullName req, body_email req, body_username req, body_password req]
            \<longrightarrow> fst (registerUser env st req) = Inl (ApiError 409 ''User already exists''))"
proof -
  from assms have "findOne_email_or_username (body_email req) (body_username req) (users st) \<noteq> None"
    by (rule findOne_email_or_username_Some)
  then obtain x where
    "findOne_email_or_username (body_email req) (body_username req) (users st) = Some x"
    by blast
  then show ?thesis by (simp add: registerUser_def)
qed

theorem registerUser_existing_rejected_witness:
  "ex_alice \<in> set (users ex_state) \<and>
   Some (username ex_alice) = body_username (ex_register\<lparr>body_username := Some ''alice''\<rparr>) \<and>
   \<not> some_field_empty [body_fullName (ex_register\<lparr>body_username := Some ''alice''\<rparr>),
                        body_email (ex_register\<lparr>body_username := Some ''alice''\<rparr>),
                        body_username (ex_register\<lparr>body_username := Some ''alice''\<rparr>),
                        body_password (ex_register\<lparr>body_username := Some ''alice''\<rparr>)] \<and>
   registerUser ex_env ex_state (ex_register\<lparr>body_username := Some ''alice''\<rparr>) =
     (Inl (ApiError 409 ''User already exists''), ex_state)"
proof -
  let ?req = "ex_register\<lparr>body_username := Some ''alice''\<rparr>"
  have a: "ex_alice \<in> set (users ex_state)" by (simp add: ex_defs)
  have b: "email ex_alice = body_email ?req \<or> Some (username ex_alice) = body_username ?req"
    by (simp add: ex_defs)
  have c: "\<not> some_field_empty [body_fullName ?req, body_email ?req, body_username ?req, body_password ?req]"
    by (simp add: ex_defs some_field_empty_def trim_def isWhiteSpace_def)
  from registerUser_existing_rejected [OF a b, of ex_env] c
  have "snd (registerUser ex_env ex_state ?req) = ex_state"
    and "fst (registerUser ex_env ex_state ?req) = Inl (ApiError 409 ''User already exists'')"
    by blast+
  then have "registerUser ex_env ex_state ?req = (Inl (ApiError 409 ''User already exists''), ex_state)"
    by (simp add: prod_eq_iff)
  with a b c show ?thesis by (simp add: ex_defs)
qed

text \<open>
  Claim C8 as stated fails: Alice is stored, the request carries her username and
  an empty password, and the answer is the 400 of the validation, not the conflict.
\<close>

theorem registerUser_existing_not_always_conflict:
  "ex_alice \<in> set (users ex_state) \<and>
   Some (username ex_alice) =
     body_username (ex_register\<lparr>body_username := Some ''alice'', body_password := Some []\<rparr>) \<and>
   registerUser ex_env ex_state
       (ex_register\<lparr>body_username := Some ''alice'', body_password := Some []\<rparr>) =
     (Inl (ApiError 400 ''Please fill in all fields''), ex_state)"
  by (simp add: ex_defs handler_defs)

text \<open>
  The lookup compares the username as it was sent, while the record stores it in
  lower case: against this store, Carol registering as \<open>Alice\<close> passes the lookup
  and is stored under Alice's username.
\<close>

lemma registerUser_case_variant_username:
  "map username (users (snd (registerUser ex_env ex_state
      (ex_register\<lparr>body_username := Some ''Alice'',
                    req_files := Some \<lparr>avatar_field = Some [\<lparr>path = ''tmp/avatar.png''\<rparr>],
                                        coverImage_field = None\<rparr>\<rparr>)))) =
     [''alice'', ''bob'', ''alice'']"
  by (simp add: ex_defs handler_defs Let_def)

text \<open>
  Claim C5 at a multipart request that carries the four text fields of a new user
  and no \<open>avatar\<close> field: reading \<open>req.files.avatar[0]\<close> throws a
  \<open>TypeError\<close> before the check that would answer 400.
\<close>

theorem registerUser_missing_avatar_field_throws:
  "registerUser ex_env ex_state
      (ex_register\<lparr>req_files := Some \<lparr>avatar_field = None, coverImage_field = None\<rparr>\<rparr>) =
     (Inl TypeError, ex_state)"
  by (simp add: ex_defs handler_defs)

text \<open>
  The 400 of the avatar check is reached where \<open>req.files\<close> is absent altogether
  or the \<open>avatar\<close> array is empty.
\<close>

lemma registerUser_no_avatar_400:
  "\<not> some_field_empty [body_fullName req, body_email req, body_username req, body_password req] \<Longrightarrow>
   findOne_email_or_username (body_email req) (body_username req) (users st) = None \<Longrightarrow>
   req_files req = None \<or> (\<exists>f. req_files req = Some f \<and> avatar_field f = Some []) \<Longrightarrow>
   registerUser env st req = (Inl (ApiError 400 ''Please upload an avatar''), st)"
  by (auto simp: registerUser_def avatarLocalPath_of_def falsy_def)

text \<open>
  Claim C9. The record a successful registration returns has no \<open>password\<close> and no
  \<open>refreshToken\<close> field.
\<close>

theorem registerUser_strips_credentials:
  "registerUser env st req = (Inr resp, st') \<Longrightarrow>
     ''password'' \<notin> fst ` set (data (json resp)) \<and>
     ''refreshToken'' \<notin> fst ` set (data (json resp))"
  by (auto simp: registerUser_def Let_def ApiResponse_def select_exclude_def
      split: if_splits option.splits sum.splits prod.splits)

lemma ex_register_success:
  "registerUser ex_env ex_state
     (ex_register\<lparr>req_files := Some \<lparr>avatar_field = Some [\<lparr>path = ''tmp/avatar.png''\<rparr>],
                                     coverImage_field = None\<rparr>\<rparr>) =
   (Inr \<lparr>status = 201, cookies = [],
         json = \<lparr>statusCode = 200,
                 data = [(''_id'', Id 3), (''fullName'', Text ''Carol''),
                         (''email'', Text ''carol@example.org''), (''username'', Text ''carol''),
                         (''avatar'', Text ''http://cdn/avatar.png''), (''coverImage'', Text []),
                         (''watchHistory'', Ids [])],
                 message = ''User created successfully'', success = True\<rparr>\<rparr>,
    ex_state\<lparr>users := [ex_alice, ex_bob,
                        \<lparr>uid = 3, fullName = Some ''Carol'', email = Some ''carol@example.org'',
                         username = ''carol'', password = Some ''secret'',
                         avatar = ''http://cdn/avatar.png'', coverImage = [],
                         refreshToken = None, watchHistory = []\<rparr>],
              disk := \<lparr>present = {''tmp/broken.png''}, unlink_calls = [''tmp/avatar.png'']\<rparr>\<rparr>)"
  by (simp add: ex_defs handler_defs Let_def insert_Diff_if)

theorem registerUser_strips_credentials_witness:
  "fst (registerUser ex_env ex_state
     (ex_register\<lparr>req_files := Some \<lparr>avatar_field = Some [\<lparr>path = ''tmp/avatar.png''\<rparr>],
                                     coverImage_field = None\<rparr>\<rparr>)) =
   Inr \<lparr>status = 201, cookies = [],
         json = \<lparr>statusCode = 200,
                 data = [(''_id'', Id 3), (''fullName'', Text ''Carol''),
                         (''email'', Text ''carol@example.org''), (''username'', Text ''carol''),
                         (''avatar'', Text ''http://cdn/avatar.png''), (''coverImage'', Text []),
                         (''watchHistory'', Ids [])],
                 message = ''User created successfully'', success = True\<rparr>\<rparr> \<and>
   ''password'' \<notin> fst ` set [(''_id'', Id 3), (''fullName'', Text ''Carol''),
                         (''email'', Text ''carol@example.org''), (''username'', Text ''carol''),
                         (''avatar'', Text ''http://cdn/avatar.png''), (''coverImage'', Text []),
                         (''watchHistory'', Ids [])] \<and>
   ''refreshToken'' \<notin> fst ` set [(''_id'', Id 3), (''fullName'', Text ''Carol''),
                         (''email'', Text ''carol@example.org''), (''username'', Text ''carol''),
                         (''avatar'', Text ''http://cdn/avatar.png''), (''coverImage'', Text []),
                         (''watchHistory'', Ids [])]"
  using registerUser_strips_credentials [OF ex_register_success] ex_register_success
  by simp

section \<open>Tokens\<close>

text \<open>
  Claim C1 at a refresh by Alice, at time 2, with her stored refresh token. The
  new refresh token is stored, but the response carries \<open>undefined\<close> in its place,
  in the cookie and in the body: the caller never receives the token that the store
  now expects. The old token is refused from then on.
\<close>

theorem refreshAccessToken_drops_new_refresh_token:
  "refreshAccessToken ex_env 2 ex_state (ex_request\<lparr>cookie_refreshToken := Some ''r''\<rparr>) =
     (Inr \<lparr>status = 200,
           cookies = [Cookie ''accessToken'' (Some ''aa''), Cookie ''refreshToken'' None],
           json = \<lparr>statusCode = 200,
                   data = [(''accessToken'', Some ''aa''), (''refreshToken'', None)],
                   message = ''Access token refreshed successfully'', success = True\<rparr>\<rparr>,
      ex_state\<lparr>users := [ex_alice\<lparr>refreshToken := Some ''rr''\<rparr>, ex_bob]\<rparr>) \<and>
   refreshAccessToken ex_env 3 (ex_state\<lparr>users := [ex_alice\<lparr>refreshToken := Some ''rr''\<rparr>, ex_bob]\<rparr>)
       (ex_request\<lparr>cookie_refreshToken := Some ''r''\<rparr>) =
     (Inl (ApiError 401 ''Invalid refresh token''),
      ex_state\<lparr>users := [ex_alice\<lparr>refreshToken := Some ''rr''\<rparr>, ex_bob]\<rparr>)"
  by (simp add: ex_defs handler_defs Let_def numeral_2_eq_2)

text \<open>This holds of every successful refresh, not only of the example.\<close>

lemma refreshAccessToken_success_shape:
  "refreshAccessToken env now st req = (Inr resp, st') \<Longrightarrow>
     map_of (data (json resp)) ''refreshToken'' = Some None \<and>
     Cookie ''refreshToken'' None \<in> set (cookies resp)"
  by (auto simp: refreshAccessToken_def generateAccessAndRefreshTokens_def Let_def ApiResponse_def
      split: if_splits option.splits sum.splits prod.splits)

text \<open>
  Claim C3 at a logout by Alice, whose stored refresh token is \<open>r\<close>. Both cookies
  are cleared, but the update sets the field to \<open>undefined\<close>, the mapper drops the
  key, and nothing is written: the store is as before and Alice's token is still
  the stored one.
\<close>

theorem logoutUser_leaves_refreshToken:
  "logoutUser ex_env ex_state (ex_request\<lparr>req_user := Some ex_alice\<rparr>) =
     (Inr \<lparr>status = 200,
           cookies = [ClearCookie ''accessToken'', ClearCookie ''refreshToken''],
           json = \<lparr>statusCode = 200, data = [], message = ''User logged out successfully'',
                   success = True\<rparr>\<rparr>,
      ex_state) \<and>
   map_option refreshToken (findById 1 (users ex_state)) = Some (Some ''r'')"
  by (simp add: ex_defs handler_defs)

text \<open>
  So it is for every logout under such a mapper; under one that writes the
  \<open>undefined\<close> as a cleared field, the stored record loses its token. The cookies
  are cleared in both cases.
\<close>

lemma logoutUser_omitUndefined:
  "omitUndefined env \<Longrightarrow> snd (logoutUser env st req) = st"
proof -
  assume "omitUndefined env"
  then have "findByIdAndUpdate i (set_refreshToken env None) us = us" for i us
    by (induction us) (simp_all add: set_refreshToken_def)
  then show ?thesis by (simp add: logoutUser_def split: option.split)
qed

lemma logoutUser_writes_undefined:
  assumes "\<not> omitUndefined env" and "req_user req = Some u"
    and "findById (uid u) (users st) = Some d"
  shows "findById (uid u) (users (snd (logoutUser env st req))) = Some (d\<lparr>refreshToken := None\<rparr>)"
proof -
  from assms(1) have "set_refreshToken env None = (\<lambda>d. d\<lparr>refreshToken := None\<rparr>)"
    by (simp add: set_refreshToken_def fun_eq_iff)
  with assms(2,3) show ?thesis
    by (simp add: logoutUser_def findById_findByIdAndUpdate_same)
qed

lemma logoutUser_clears_cookies:
  "logoutUser env st req = (Inr resp, st') \<Longrightarrow>
     cookies resp = [ClearCookie ''accessToken'', ClearCookie ''refreshToken'']"
  by (auto simp: logoutUser_def split: option.splits)

section \<open>Avatar and cover image updates\<close>

text \<open>
  Claim C6 at an upload that fails: both update handlers answer 400 where the
  claim says 500, while \<open>registerUser\<close> answers the same failed avatar upload with
  500.
\<close>

theorem update_upload_failure_is_400:
  "fst (updateUserAvatar ex_env ex_state
          (ex_request\<lparr>req_file := Some \<lparr>path = ''tmp/broken.png''\<rparr>, req_user := Some ex_alice\<rparr>)) =
     Inl (ApiError 400 ''Error uploading avatar'') \<and>
   fst (updateUserCoverImage ex_env ex_state
          (ex_request\<lparr>req_file := Some \<lparr>path = ''tmp/broken.png''\<rparr>, req_user := Some ex_alice\<rparr>)) =
     Inl (ApiError 400 ''Error uploading cover image'') \<and>
   fst (registerUser ex_env ex_state
          (ex_register\<lparr>req_files := Some \<lparr>avatar_field = Some [\<lparr>path = ''tmp/broken.png''\<rparr>],
                                          coverImage_field = None\<rparr>\<rparr>)) =
     Inl (ApiError 500 ''Error uploading avatar'')"
  by (simp add: ex_defs handler_defs)

text \<open>The other two parts of the claim hold: no file gives 400 and changes nothing,\<close>

lemma update_no_file_400:
  "falsy (map_option path (req_file req)) \<Longrightarrow>
     updateUserAvatar env st req = (Inl (ApiError 400 ''Please upload an avatar''), st) \<and>
     updateUserCoverImage env st req = (Inl (ApiError 400 ''Please upload the cover image''), st)"
  by (simp add: updateUserAvatar_def updateUserCoverImage_def)

text \<open>and a successful upload rewrites one field of the user's record, and only that.\<close>

lemma updateUserAvatar_success:
  assumes "req_file req = Some f" "path f \<noteq> []" "path f \<in> present (disk st)"
    and "cloudinary_upload env (path f) = Some r" and "req_user req = Some u"
  shows "\<exists>resp. updateUserAvatar env st req =
           (Inr resp,
            st\<lparr>users := findByIdAndUpdate (uid u) (\<lambda>d. d\<lparr>avatar := url r\<rparr>) (users st),
               disk := (disk st)\<lparr>present := present (disk st) - {path f},
                                 unlink_calls := unlink_calls (disk st) @ [path f]\<rparr>\<rparr>)"
  using assms
  by (simp add: updateUserAvatar_def falsy_def uploadOnCloudinary_def unlinkSync_def Let_def)

lemma updateUserCoverImage_success:
  assumes "req_file req = Some f" "path f \<noteq> []" "path f \<in> present (disk st)"
    and "cloudinary_upload env (path f) = Some r" and "req_user req = Some u"
  shows "\<exists>resp. updateUserCoverImage env st req =
           (Inr resp,
            st\<lparr>users := findByIdAndUpdate (uid u) (\<lambda>d. d\<lparr>coverImage := url r\<rparr>) (users st),
               disk := (disk st)\<lparr>present := present (disk st) - {path f},
                                 unlink_calls := unlink_calls (disk st) @ [path f]\<rparr>\<rparr>)"
  using assms
  by (simp add: updateUserCoverImage_def falsy_def uploadOnCloudinary_def unlinkSync_def Let_def)

section \<open>Channel profile and watch history\<close>

text \<open>
  Claim C2: \<open>getWatchHistory\<close> never answers. For every store and every request
  it throws a \<open>TypeError\<close>, since the aggregation is indexed without being awaited.
\<close>

theorem getWatchHistory_throws: "getWatchHistory st req = Inl TypeError"
  by (simp add: getWatchHistory_def aggregate_index_def split: option.split)

text \<open>
  Claim C4 at a request for Alice's channel that carries Bob's valid access token,
  Bob being subscribed to Alice: the counts are right, but the route runs no
  \<open>verifyJWT\<close>, the viewer stays unknown, and \<open>isSubscribed\<close> is false.
\<close>

theorem serve_channel_profile_never_subscribed:
  "serve_channel_profile ex_env ex_state
      (ex_request\<lparr>params_username := Some ''alice'', cookie_accessToken := Some ''bob-access''\<rparr>) =
     Inr \<lparr>status = 200, cookies = [],
          json = \<lparr>statusCode = 200,
                  data = \<lparr>channel_id = 1, channel_fullName = Some ''Alice'',
                          channel_username = ''alice'', subscribedToCount = 0,
                          subscriberCount = 1, isSubscribed = False,
                          channel_avatar = ''http://cdn/alice.png'', channel_coverImage = [],
                          channel_email = Some ''alice@example.org''\<rparr>,
                  message = ''Channel profile fetched successfully'', success = True\<rparr>\<rparr>"
  by (simp add: ex_defs handler_defs)

text \<open>The flag is false for every request the route serves.\<close>

lemma serve_channel_profile_isSubscribed_False:
  "serve_channel_profile env st req = Inr resp \<Longrightarrow> \<not> isSubscribed (data (json resp))"
  by (auto simp: serve_channel_profile_def route_of_def router_def getUserChannelProfile_def
      channel_pipeline_def ApiResponse_def split: if_splits list.splits)

text \<open>
  The controller by itself computes what the claim says: the counts are the numbers
  of edges into and out of the channel, and the flag tells whether the user on the
  request is among the subscribers.
\<close>

lemma getUserChannelProfile_counts:
  assumes "getUserChannelProfile st req = Inr resp"
  shows "\<exists>u un. params_username req = Some un \<and> u \<in> set (users st) \<and>
           username u = toLowerCase un \<and> channel_id (data (json resp)) = uid u \<and>
           subscriberCount (data (json resp)) =
             length (filter (\<lambda>s. channel s = uid u) (subscriptions st)) \<and>
           subscribedToCount (data (json resp)) =
             length (filter (\<lambda>s. subscriber s = uid u) (subscriptions st)) \<and>
           isSubscribed (data (json resp)) =
             (\<exists>v. req_user req = Some v \<and>
                  uid v \<in> subscriber ` set (filter (\<lambda>s. channel s = uid u) (subscriptions st)))"
proof -
  from assms obtain un where un: "params_username req = Some un"
    by (cases "params_username req") (auto simp: getUserChannelProfile_def falsy_def)
  from assms un obtain u rest where
    f: "filter (\<lambda>u. username u = toLowerCase un) (users st) = u # rest"
    by (cases "filter (\<lambda>u. username u = toLowerCase un) (users st)")
       (auto simp: getUserChannelProfile_def channel_pipeline_def split: if_splits)
  then have "u \<in> set (filter (\<lambda>u. username u = toLowerCase un) (users st))" by simp
  then have mem: "u \<in> set (users st)" "username u = toLowerCase un" by auto
  from assms un f
  have "data (json resp) = hd (channel_pipeline st un (map_option uid (req_user req)))"
    by (auto simp: getUserChannelProfile_def channel_pipeline_def ApiResponse_def split: if_splits)
  with f mem un show ?thesis
    by (cases "req_user req") (auto simp: channel_pipeline_def Let_def)
qed

lemma getUserChannelProfile_after_verifyJWT:
  "verifyJWT ex_env ex_state
      (ex_request\<lparr>params_username := Some ''alice'', cookie_accessToken := Some ''bob-access''\<rparr>) =
     Inr req' \<Longrightarrow>
   map_sum id (\<lambda>resp. isSubscribed (data (json resp))) (getUserChannelProfile ex_state req') = Inr True"
  by (auto simp: ex_defs handler_defs)

end
